theory Spec2Isabelle
  imports Complex_Main "HOL-Library.Word" "HOL-Library.AList"
begin

section \<open>Go strings and the library functions the analyzer calls\<close>

text \<open>
  A Go string is a sequence of bytes, here a \<open>string\<close> (a list of 8-bit characters).
  The analyzer reads its text through \<open>strings.Split\<close>, \<open>strings.TrimSpace\<close>,
  \<open>strings.Fields\<close>, \<open>strings.Join\<close>, \<open>strings.ToLower\<close>, a \<open>range\<close> loop over
  the runes of a string and the regular expression \<open>\s+\<close>. They are modelled on bytes,
  with the UTF-8 decoding that Go performs written out. A rune is a code point.
\<close>

type_synonym rune = nat

definition RuneError :: rune where
  "RuneError = 65533"

text \<open>
  \<open>utf8.DecodeRuneInString\<close>: the first rune of the string and its width in bytes.
  An invalid or truncated encoding gives \<open>(RuneError, 1)\<close>, the empty string
  \<open>(RuneError, 0)\<close>. The second byte of a sequence must lie in the accept range of
  its first byte, which excludes over-long encodings, surrogates and code points above
  U+10FFFF.
\<close>

definition continuation :: "nat \<Rightarrow> bool" where
  "continuation b = (128 \<le> b \<and> b \<le> 191)"

definition acceptLo :: "nat \<Rightarrow> nat" where
  "acceptLo s0 = (if s0 = 224 then 160 else if s0 = 240 then 144 else 128)"

definition acceptHi :: "nat \<Rightarrow> nat" where
  "acceptHi s0 = (if s0 = 237 then 159 else if s0 = 244 then 143 else 191)"

definition runeSize :: "nat \<Rightarrow> nat" where
  "runeSize s0 = (if s0 < 224 then 2 else if s0 < 240 then 3 else 4)"

fun DecodeRuneInString :: "string \<Rightarrow> rune \<times> nat" where
  "DecodeRuneInString [] = (RuneError, 0)"
| "DecodeRuneInString (c # cs) =
     (let s0 = (of_char c :: nat) in
      if s0 < 128 then (s0, 1)
      else if s0 < 194 \<or> 244 < s0 then (RuneError, 1)
      else if Suc (length cs) < runeSize s0 then (RuneError, 1)
      else
        (let s1 = (of_char (cs ! 0) :: nat) in
         if s1 < acceptLo s0 \<or> acceptHi s0 < s1 then (RuneError, 1)
         else if runeSize s0 \<le> 2 then ((s0 mod 32) * 64 + s1 mod 64, 2)
         else
           (let s2 = (of_char (cs ! 1) :: nat) in
            if \<not> continuation s2 then (RuneError, 1)
            else if runeSize s0 \<le> 3
              then ((s0 mod 16) * 4096 + (s1 mod 64) * 64 + s2 mod 64, 3)
            else
              (let s3 = (of_char (cs ! 2) :: nat) in
               if \<not> continuation s3 then (RuneError, 1)
               else ((s0 mod 8) * 262144 + (s1 mod 64) * 4096
                     + (s2 mod 64) * 64 + s3 mod 64, 4)))))"

text \<open>
  \<open>utf8.AppendRune\<close>, which \<open>strings.Builder.WriteRune\<close> calls: the UTF-8 encoding of a
  rune; a surrogate or a value above U+10FFFF is written as \<open>RuneError\<close>.
\<close>

definition encode3 :: "rune \<Rightarrow> string" where
  "encode3 r = [char_of (224 + r div 4096), char_of (128 + (r div 64) mod 64),
                char_of (128 + r mod 64)]"

definition AppendRune :: "rune \<Rightarrow> string" where
  "AppendRune r =
     (if r < 128 then [char_of r]
      else if r < 2048 then [char_of (192 + r div 64), char_of (128 + r mod 64)]
      else if 1114111 < r \<or> (55296 \<le> r \<and> r \<le> 57343) then encode3 RuneError
      else if r < 65536 then encode3 r
      else [char_of (240 + r div 262144), char_of (128 + (r div 4096) mod 64),
            char_of (128 + (r div 64) mod 64), char_of (128 + r mod 64)])"

text \<open>
  \<open>for _, r := range s\<close>: the runes of a string from left to right, each with the
  bytes it was decoded from. \<open>skip\<close> counts the bytes of the current rune still to
  be passed over.
\<close>

fun rangeRunes :: "nat \<Rightarrow> string \<Rightarrow> (rune \<times> string) list" where
  "rangeRunes skip [] = []"
| "rangeRunes skip (c # cs) =
     (if 0 < skip then rangeRunes (skip - 1) cs
      else (let (r, w) = DecodeRuneInString (c # cs)
            in (r, take w (c # cs)) # rangeRunes (w - 1) cs))"

text \<open>
  \<open>unicode.IsSpace\<close>: the Latin-1 white space and the code points of the Unicode
  property White_Space.
\<close>

definition IsSpace :: "rune \<Rightarrow> bool" where
  "IsSpace r =
     ((9 \<le> r \<and> r \<le> 13) \<or> r = 32 \<or> r = 133 \<or> r = 160 \<or> r = 5760
      \<or> (8192 \<le> r \<and> r \<le> 8202) \<or> r = 8232 \<or> r = 8233 \<or> r = 8239
      \<or> r = 8287 \<or> r = 12288)"

text \<open>
  \<open>strings.Fields\<close>: the maximal runs of bytes between white-space runes; no field
  is empty.
\<close>

definition flush :: "string \<Rightarrow> string list" where
  "flush cur = (if cur = [] then [] else [cur])"

fun fieldsOf :: "string \<Rightarrow> (rune \<times> string) list \<Rightarrow> string list" where
  "fieldsOf cur [] = flush cur"
| "fieldsOf cur ((r, bs) # rest) =
     (if IsSpace r then flush cur @ fieldsOf [] rest else fieldsOf (cur @ bs) rest)"

definition Fields :: "string \<Rightarrow> string list" where
  "Fields s = fieldsOf [] (rangeRunes 0 s)"

text \<open>\<open>strings.TrimSpace\<close>: the string without its leading and trailing white space.\<close>

definition TrimSpace :: "string \<Rightarrow> string" where
  "TrimSpace s =
     concat (map snd
       (rev (dropWhile (\<lambda>(r, bs). IsSpace r)
          (rev (dropWhile (\<lambda>(r, bs). IsSpace r) (rangeRunes 0 s))))))"

text \<open>
  \<open>strings.Split\<close> for a separator that is not empty (the analyzer never passes an
  empty one, and the model leaves that case unspecified): the pieces between the
  non-overlapping occurrences of the separator, found from the left. \<open>cur\<close> is the
  piece read so far. A string without the separator gives one piece, the string itself.
\<close>

fun splitFrom :: "char \<Rightarrow> string \<Rightarrow> string \<Rightarrow> string \<Rightarrow> string list" where
  "splitFrom a as cur [] = [cur]"
| "splitFrom a as cur (c # cs) =
     (if take (Suc (length as)) (c # cs) = a # as
      then cur # splitFrom a as [] (drop (length as) cs)
      else splitFrom a as (cur @ [c]) cs)"

fun Split :: "string \<Rightarrow> string \<Rightarrow> string list" where
  "Split s (a # as) = splitFrom a as [] s"

text \<open>\<open>strings.Join\<close>.\<close>

fun Join :: "string list \<Rightarrow> string \<Rightarrow> string" where
  "Join [] sep = []"
| "Join [e] sep = e"
| "Join (e # es) sep = e @ sep @ Join es sep"

text \<open>The two line feeds that separate paragraphs.\<close>

definition blankLine :: string where
  "blankLine = [CHR 0x0A, CHR 0x0A]"

section \<open>The text analyzer\<close>

text \<open>
  \<open>TextAnalyzer.AnalyzeText\<close>. The three counts are Go \<open>int32\<close> values, converted
  from the lengths, so they wrap modulo \<open>2 ^ 32\<close>; \<open>sint\<close> reads the signed value.
\<close>

type_synonym int32 = "32 word"

definition AnalyzeText :: "string \<Rightarrow> int32 \<times> int32 \<times> int32" where
  "AnalyzeText content =
     (let paragraphs = Split content blankLine;
          nonEmptyParagraphs = filter (\<lambda>p. TrimSpace p \<noteq> []) paragraphs;
          paragraphCount = word_of_nat (length nonEmptyParagraphs);
          words = Fields content;
          wordCount = word_of_nat (length words);
          characterCount = word_of_nat (length content)
      in (paragraphCount, wordCount, characterCount))"

definition GetWords :: "string \<Rightarrow> string list" where
  "GetWords content = Fields content"

text \<open>
  A slice expression \<open>words[lo:hi]\<close> panics unless \<open>0 \<le> lo \<le> hi \<le> len(words)\<close> (the
  slices here have no spare capacity that the analyzer could reach).
\<close>

datatype panic = SliceBoundsOutOfRange

definition slice :: "'a list \<Rightarrow> int \<Rightarrow> int \<Rightarrow> panic + 'a list" where
  "slice xs lo hi =
     (if 0 \<le> lo \<and> lo \<le> hi \<and> hi \<le> int (length xs)
      then Inr (take (nat (hi - lo)) (drop (nat lo) xs))
      else Inl SliceBoundsOutOfRange)"

text \<open>
  The loop of \<open>TextAnalyzer.GetNGrams\<close>, from index \<open>i\<close> with the n-grams collected
  so far.
\<close>

function ngramLoop :: "string list \<Rightarrow> int \<Rightarrow> int \<Rightarrow> string list \<Rightarrow> panic + string list" where
  "ngramLoop words n i ngrams =
     (if i \<le> int (length words) - n
      then (case slice words i (i + n) of
              Inl p \<Rightarrow> Inl p
            | Inr ws \<Rightarrow> ngramLoop words n (i + 1) (ngrams @ [Join ws '' '']))
      else Inr ngrams)"
  by pat_completeness auto
termination
  by (relation "measure (\<lambda>(words, n, i, ngrams). nat (int (length words) - n - i + 1))") auto

declare ngramLoop.simps [simp del]

definition GetNGrams :: "string \<Rightarrow> int \<Rightarrow> panic + string list" where
  "GetNGrams content n =
     (let words = GetWords content
      in if int (length words) < n then Inr [] else ngramLoop words n 0 [])"

section \<open>Library functions outside the repository\<close>

text \<open>
  The Unicode tables of the Go library and SHA-256 are not code of the repository. On
  ASCII the punctuation class and the lower-case mapping are written out below; beyond
  ASCII they are the fields of a record that every definition takes as a parameter, as is
  the hash function. Whatever is proved holds for every such record, the real tables and
  the real SHA-256 among them.
\<close>

record golib =
  unicode_IsPunct :: "rune \<Rightarrow> bool"
  unicode_ToLower :: "rune \<Rightarrow> rune"
  sha256_Sum256 :: "string \<Rightarrow> string"

text \<open>
  The ASCII characters of the Unicode categories P*:
  \<open>! " # % & ' ( ) * , - . / : ; ? @ [ \ ] _ { }\<close>.
\<close>

definition asciiPunct :: "rune list" where
  "asciiPunct = [33, 34, 35, 37, 38, 39, 40, 41, 42, 44, 45, 46, 47, 58, 59, 63, 64,
                 91, 92, 93, 95, 123, 125]"

definition IsPunct :: "golib \<Rightarrow> rune \<Rightarrow> bool" where
  "IsPunct L r = (if r < 128 then r \<in> set asciiPunct else unicode_IsPunct L r)"

definition ToLowerRune :: "golib \<Rightarrow> rune \<Rightarrow> rune" where
  "ToLowerRune L r =
     (if r < 128 then (if 65 \<le> r \<and> r \<le> 90 then r + 32 else r) else unicode_ToLower L r)"

text \<open>
  \<open>strings.ToLower\<close>, which is \<open>strings.Map\<close> of \<open>unicode.ToLower\<close>: every rune is
  replaced by the encoding of its image, an invalid byte by the encoding of
  \<open>RuneError\<close>.
\<close>

definition ToLower :: "golib \<Rightarrow> string \<Rightarrow> string" where
  "ToLower L s = concat (map (\<lambda>(r, bs). AppendRune (ToLowerRune L r)) (rangeRunes 0 s))"

text \<open>
  \<open>regexp.MustCompile(`\s+`).ReplaceAllString(text, " ")\<close>: in Go's regular
  expressions \<open>\s\<close> is the ASCII class of tab, line feed, form feed, carriage return
  and space. \<open>inRun\<close> tells that the preceding byte belonged to the run being replaced.
\<close>

definition reSpace :: "char \<Rightarrow> bool" where
  "reSpace c = (of_char c \<in> set [9, 10, 12, 13, 32 :: nat])"

fun collapseSpace :: "bool \<Rightarrow> string \<Rightarrow> string" where
  "collapseSpace inRun [] = []"
| "collapseSpace inRun (c # cs) =
     (if reSpace c
      then (if inRun then collapseSpace True cs else CHR '' '' # collapseSpace True cs)
      else c # collapseSpace False cs)"

text \<open>\<open>hex.EncodeToString\<close>.\<close>

definition hextable :: string where
  "hextable = ''0123456789abcdef''"

definition EncodeToString :: "string \<Rightarrow> string" where
  "EncodeToString src =
     concat (map (\<lambda>b. [hextable ! (of_char b div 16), hextable ! (of_char b mod 16)]) src)"

section \<open>Significant words\<close>

text \<open>
  \<open>TextAnalyzer\<close> holds the stop words, a Go \<open>map[string]bool\<close>; a word that is not a
  key reads as \<open>false\<close>.
\<close>

record TextAnalyzer =
  StopWords :: "string \<rightharpoonup> bool"

definition NewTextAnalyzer :: TextAnalyzer where
  "NewTextAnalyzer = \<lparr> StopWords = map_of (map (\<lambda>w. (w, True))
     [''a'', ''an'', ''the'', ''and'', ''or'', ''but'',
      ''is'', ''are'', ''was'', ''were'', ''be'', ''been'',
      ''in'', ''on'', ''at'', ''to'', ''for'', ''with'',
      ''by'', ''of'', ''about'', ''from'',
      ''this'', ''that'', ''these'', ''those'',
      ''it'', ''its'', ''it'' @ [CHR 0x27] @ ''s'', ''they'', ''them'', ''their'']) \<rparr>"

definition isStopWord :: "TextAnalyzer \<Rightarrow> string \<Rightarrow> bool" where
  "isStopWord a word = (case StopWords a word of Some b \<Rightarrow> b | None \<Rightarrow> False)"

definition GetSignificantWords :: "golib \<Rightarrow> TextAnalyzer \<Rightarrow> string \<Rightarrow> string list" where
  "GetSignificantWords L a content =
     (let lowered = ToLower L content;
          sb = concat (map (\<lambda>(r, bs). if \<not> IsPunct L r then AppendRune r else AppendRune 32)
                         (rangeRunes 0 lowered));
          words = Fields sb;
          significantWords = filter (\<lambda>word. \<not> isStopWord a word) words
      in significantWords)"

definition RemoveExcessWhitespace :: "string \<Rightarrow> string" where
  "RemoveExcessWhitespace text = collapseSpace False text"

section \<open>The plagiarism checker\<close>

text \<open>
  The similarity and its threshold are \<open>float64\<close> in Go. The model computes the quotient
  of the two counts as an exact rational number. The counts convert to \<open>float64\<close> without
  rounding below \<open>2 ^ 53\<close>, the rounded quotient of two equal counts is exactly one, that
  of zero by a positive count exactly zero, and rounding is monotone: the comparison with
  the default threshold has the same outcome in both as long as the union holds fewer
  than \<open>10 ^ 15\<close> n-grams. Go's \<open>int\<close> counters are modelled as unbounded integers.
\<close>

record PlagiarismChecker =
  SimilarityThreshold :: rat
  NGramSize :: int
  textAnalyzer :: TextAnalyzer

definition NewPlagiarismChecker :: PlagiarismChecker where
  "NewPlagiarismChecker =
     \<lparr> SimilarityThreshold = 3 / 10, NGramSize = 3, textAnalyzer = NewTextAnalyzer \<rparr>"

text \<open>
  A Go map is modelled by the list of its entries, with distinct keys, in the order in
  which a \<open>range\<close> statement visits them. Go leaves that order unspecified; what is
  proved below for every list holds for every order. \<open>m[k] = v\<close> is \<open>AList.update\<close>,
  \<open>len(m)\<close> the length of the list, and a key that is absent reads as the zero value.
\<close>

type_synonym ('k, 'v) gomap = "('k \<times> 'v) list"

definition indexInt :: "('k, int) gomap \<Rightarrow> 'k \<Rightarrow> int" where
  "indexInt m k = (case map_of m k of Some v \<Rightarrow> v | None \<Rightarrow> 0)"

definition indexBool :: "('k, bool) gomap \<Rightarrow> 'k \<Rightarrow> bool" where
  "indexBool m k = (case map_of m k of Some v \<Rightarrow> v | None \<Rightarrow> False)"

definition preprocessText :: "golib \<Rightarrow> PlagiarismChecker \<Rightarrow> string \<Rightarrow> string" where
  "preprocessText L c text =
     (let significantWords = GetSignificantWords L (textAnalyzer c) text;
          processedText = Join significantWords '' ''
      in RemoveExcessWhitespace processedText)"

definition generateNGrams :: "string \<Rightarrow> int \<Rightarrow> panic + (string, int) gomap" where
  "generateNGrams text n =
     (case GetNGrams text n of
        Inl p \<Rightarrow> Inl p
      | Inr ngrams \<Rightarrow>
          Inr (fold (\<lambda>ngram ngramFreq. AList.update ngram (indexInt ngramFreq ngram + 1) ngramFreq)
                 ngrams []))"

text \<open>
  \<open>calculateJaccardSimilarity\<close> first copies the keys of each frequency map into a set,
  a \<open>map[string]bool\<close>, by the same loop for both; \<open>toSet\<close> is that loop.
\<close>

definition toSet :: "(string, int) gomap \<Rightarrow> (string, bool) gomap" where
  "toSet ngrams = fold (\<lambda>(ngram, _) s. AList.update ngram True s) ngrams []"

definition calculateJaccardSimilarity :: "(string, int) gomap \<Rightarrow> (string, int) gomap \<Rightarrow> rat" where
  "calculateJaccardSimilarity ngrams1 ngrams2 =
     (let set1 = toSet ngrams1;
          set2 = toSet ngrams2;
          intersection = fold (\<lambda>(ngram, _) i. if indexBool set2 ngram then i + 1 else i) set1 (0 :: int);
          union = int (length set1) + int (length set2) - intersection
      in if union = 0 then 0 else of_int intersection / of_int union)"

definition calculateHash :: "golib \<Rightarrow> string \<Rightarrow> string" where
  "calculateHash L content = EncodeToString (sha256_Sum256 L content)"

text \<open>
  The loop of \<open>CheckPlagiarism\<close> over the entries of \<open>otherContents\<close>, with the
  identifiers collected so far. A panic of \<open>GetNGrams\<close> ends the call.
\<close>

fun checkLoop :: "golib \<Rightarrow> PlagiarismChecker \<Rightarrow> string \<Rightarrow> (string, int) gomap
    \<Rightarrow> (string, string) gomap \<Rightarrow> string list \<Rightarrow> panic + string list" where
  "checkLoop L c processedContent currentNGrams [] similarFileIDs = Inr similarFileIDs"
| "checkLoop L c processedContent currentNGrams ((fileID, otherContent) # rest) similarFileIDs =
     (let processedOtherContent = preprocessText L c otherContent
      in if calculateHash L processedContent = calculateHash L processedOtherContent
         then checkLoop L c processedContent currentNGrams rest (similarFileIDs @ [fileID])
         else (case generateNGrams processedOtherContent (NGramSize c) of
                 Inl p \<Rightarrow> Inl p
               | Inr otherNGrams \<Rightarrow>
                   (let similarity = calculateJaccardSimilarity currentNGrams otherNGrams
                    in if similarity \<ge> SimilarityThreshold c
                       then checkLoop L c processedContent currentNGrams rest
                              (similarFileIDs @ [fileID])
                       else checkLoop L c processedContent currentNGrams rest similarFileIDs)))"

definition CheckPlagiarism :: "golib \<Rightarrow> PlagiarismChecker \<Rightarrow> string \<Rightarrow> (string, string) gomap
    \<Rightarrow> panic + (bool \<times> string list)" where
  "CheckPlagiarism L c content otherContents =
     (let processedContent = preprocessText L c content
      in case generateNGrams processedContent (NGramSize c) of
           Inl p \<Rightarrow> Inl p
         | Inr currentNGrams \<Rightarrow>
             (case checkLoop L c processedContent currentNGrams otherContents [] of
                Inl p \<Rightarrow> Inl p
              | Inr similarFileIDs \<Rightarrow> Inr (length similarFileIDs > 0, similarFileIDs)))"

text \<open>
  The similarity that \<open>CheckPlagiarism\<close> computes for a candidate on its slow path:
  the Jaccard similarity of the n-gram maps of the two normalized texts.
\<close>

definition documentSimilarity :: "golib \<Rightarrow> PlagiarismChecker \<Rightarrow> string \<Rightarrow> string \<Rightarrow> panic + rat" where
  "documentSimilarity L c content otherContent =
     (case generateNGrams (preprocessText L c content) (NGramSize c) of
        Inl p \<Rightarrow> Inl p
      | Inr currentNGrams \<Rightarrow>
          (case generateNGrams (preprocessText L c otherContent) (NGramSize c) of
             Inl p \<Rightarrow> Inl p
           | Inr otherNGrams \<Rightarrow> Inr (calculateJaccardSimilarity currentNGrams otherNGrams)))"

text \<open>
  The specification's notion of a matching candidate, in its own words: the hashes of
  the two normalized strings are equal, or the Jaccard similarity of their n-gram sets
  is at least the configured threshold.
\<close>

definition matchesSpec :: "golib \<Rightarrow> PlagiarismChecker \<Rightarrow> string \<Rightarrow> string \<Rightarrow> bool" where
  "matchesSpec L c content otherContent =
     (calculateHash L (preprocessText L c content) = calculateHash L (preprocessText L c otherContent)
      \<or> (case documentSimilarity L c content otherContent of
            Inl p \<Rightarrow> False
          | Inr similarity \<Rightarrow> SimilarityThreshold c \<le> similarity))"

text \<open>
  A library record for running the model on ASCII texts, where the tables beyond ASCII
  are never consulted; its hash is the identity.
\<close>

definition asciiLib :: golib where
  "asciiLib = \<lparr> unicode_IsPunct = (\<lambda>r. False), unicode_ToLower = (\<lambda>r. r),
                sha256_Sum256 = (\<lambda>s. s) \<rparr>"

section \<open>Properties of the text analyzer\<close>

lemma sint_word_of_nat_le: "sint (word_of_nat k :: 32 word) \<le> int k"
proof -
  have "sint (word_of_nat k :: 32 word) = signed_take_bit 31 (int k)"
    by (simp add: signed_of_nat)
  also have "\<dots> \<le> int k"
    by (simp add: signed_take_bit_int_less_eq_self_iff)
  finally show ?thesis .
qed

lemma paragraphCount_le_segments:
  "sint (fst (AnalyzeText T)) \<le> int (length (Split T blankLine))"
proof -
  have "sint (fst (AnalyzeText T))
        \<le> int (length (filter (\<lambda>p. TrimSpace p \<noteq> []) (Split T blankLine)))"
    by (simp add: AnalyzeText_def Let_def sint_word_of_nat_le)
  also have "\<dots> \<le> int (length (Split T blankLine))"
    by simp
  finally show ?thesis .
qed

text \<open>The definitions that \<open>simp\<close> unfolds to run the analyzer on a concrete text.\<close>

lemmas eval_defs =
  AnalyzeText_def Fields_def TrimSpace_def flush_def IsSpace_def blankLine_def Let_def

lemma AnalyzeText_empty: "AnalyzeText [] = (0, 0, 0)"
  by (simp add: eval_defs)

lemma AnalyzeText_Hello: "AnalyzeText ''Hello'' = (1, 1, 5)"
  by (simp add: eval_defs)

lemma AnalyzeText_three_paragraphs:
  "AnalyzeText (''This is the first paragraph.'' @ blankLine
                @ ''This is the second paragraph.'' @ blankLine
                @ ''And this is the third.'') = (3, 15, 83)"
  by (simp add: eval_defs)

text \<open>
  Claim C7. \<open>AnalyzeText\<close> returns \<open>(0, 0, 0)\<close> on the empty string, \<open>(1, 1, 5)\<close> on
  \<open>Hello\<close> and \<open>(3, 15, 83)\<close> on the three paragraphs of the test suite; and for every
  text \<open>T\<close> the paragraph count, read as the signed 32-bit number it is, is at most
  the number of segments that splitting \<open>T\<close> at blank lines gives.
\<close>

theorem AnalyzeText_scenarios_and_paragraph_bound:
  "AnalyzeText [] = (0, 0, 0)
   \<and> AnalyzeText ''Hello'' = (1, 1, 5)
   \<and> AnalyzeText (''This is the first paragraph.'' @ blankLine
                  @ ''This is the second paragraph.'' @ blankLine
                  @ ''And this is the third.'') = (3, 15, 83)
   \<and> sint (fst (AnalyzeText T)) \<le> int (length (Split T blankLine))"
  by (intro conjI AnalyzeText_empty AnalyzeText_Hello AnalyzeText_three_paragraphs
        paragraphCount_le_segments)

text \<open>
  The loop of \<open>GetNGrams\<close> in closed form: from a valid index and a window that is not
  negative it never panics, and appends one n-gram for each remaining start index.
\<close>

lemma upt_nat_step:
  assumes "i \<le> int (length words) - n" "0 \<le> n" "0 \<le> i"
  shows "[nat i ..< Suc (length words - nat n)]
         = nat i # [nat (i + 1) ..< Suc (length words - nat n)]"
proof -
  have "nat i < Suc (length words - nat n)" using assms by linarith
  moreover have "nat (i + 1) = Suc (nat i)" using assms by linarith
  ultimately show ?thesis by (simp only: upt_conv_Cons)
qed

lemma slice_window:
  assumes "i \<le> int (length words) - n" "0 \<le> n" "0 \<le> i"
  shows "slice words i (i + n) = Inr (take (nat n) (drop (nat i) words))"
proof -
  have "0 \<le> i \<and> i \<le> i + n \<and> i + n \<le> int (length words)" using assms by linarith
  moreover have "i + n - i = n" by simp
  ultimately show ?thesis unfolding slice_def by simp
qed

lemma ngramLoop_closed:
  "0 \<le> n \<Longrightarrow> n \<le> int (length words) \<Longrightarrow> 0 \<le> i
   \<Longrightarrow> i \<le> int (length words) - n + 1 \<Longrightarrow>
   ngramLoop words n i acc =
     Inr (acc @ map (\<lambda>j. Join (take (nat n) (drop j words)) '' '')
                  [nat i ..< Suc (length words - nat n)])"
proof (induction words n i acc rule: ngramLoop.induct)
  case (1 words n i ngrams)
  let ?f = "\<lambda>j. Join (take (nat n) (drop j words)) '' ''"
  show ?case
  proof (cases "i \<le> int (length words) - n")
    case True
    have sl: "slice words i (i + n) = Inr (take (nat n) (drop (nat i) words))"
      using True 1(2,4) by (rule slice_window)
    have rng: "[nat i ..< Suc (length words - nat n)]
               = nat i # [nat (i + 1) ..< Suc (length words - nat n)]"
      using True 1(2,4) by (rule upt_nat_step)
    have step: "ngramLoop words n i ngrams
          = ngramLoop words n (i + 1) (ngrams @ [?f (nat i)])"
      by (subst ngramLoop.simps) (simp only: True if_True sl sum.case)
    have i1: "0 \<le> i + 1" "i + 1 \<le> int (length words) - n + 1"
      using True 1(4) by linarith+
    have "ngramLoop words n (i + 1) (ngrams @ [?f (nat i)])
          = Inr ((ngrams @ [?f (nat i)]) @ map ?f [nat (i + 1) ..< Suc (length words - nat n)])"
      by (rule 1(1) [OF True sl 1(2,3) i1])
    then show ?thesis
      by (simp only: step rng list.map append_assoc append_Cons append_Nil)
  next
    case False
    have "nat i = Suc (length words - nat n)" using False 1(2,3,4,5) by linarith
    then have "[nat i ..< Suc (length words - nat n)] = []" by simp
    moreover have "ngramLoop words n i ngrams = Inr ngrams"
      by (subst ngramLoop.simps) (simp only: False if_False)
    ultimately show ?thesis by simp
  qed
qed

lemma GetNGrams_closed:
  assumes "0 \<le> n"
  shows "GetNGrams T n =
     Inr (if int (length (Fields T)) < n then []
          else map (\<lambda>j. Join (take (nat n) (drop j (Fields T))) '' '')
                 [0 ..< Suc (length (Fields T) - nat n)])"
proof (cases "int (length (Fields T)) < n")
  case True
  then show ?thesis by (simp add: GetNGrams_def GetWords_def)
next
  case False
  have "ngramLoop (Fields T) n 0 []
             = Inr ([] @ map (\<lambda>j. Join (take (nat n) (drop j (Fields T))) '' '')
                          [nat 0 ..< Suc (length (Fields T) - nat n)])"
    using assms False by (intro ngramLoop_closed) simp_all
  then show ?thesis using False by (simp add: GetNGrams_def GetWords_def Let_def del: upt_Suc)
qed

text \<open>
  Claim C8. For every text \<open>T\<close> and every window \<open>n \<ge> 1\<close>, \<open>GetNGrams\<close> returns the
  empty sequence when \<open>T\<close> has fewer than \<open>n\<close> white-space tokens, and otherwise
  exactly \<open>tokenCount - n + 1\<close> n-grams, the \<open>i\<close>-th being the \<open>n\<close> tokens from
  position \<open>i\<close> joined by single spaces.
\<close>

theorem GetNGrams_count_and_content:
  assumes "1 \<le> n"
  shows "(int (length (Fields T)) < n \<longrightarrow> GetNGrams T n = Inr [])
       \<and> (n \<le> int (length (Fields T)) \<longrightarrow>
            (\<exists>gs. GetNGrams T n = Inr gs
              \<and> int (length gs) = int (length (Fields T)) - n + 1
              \<and> (\<forall>i < length gs. gs ! i = Join (take (nat n) (drop i (Fields T))) '' '')))"
proof -
  have n0: "0 \<le> n" using assms by simp
  show ?thesis
  proof (intro conjI impI)
    assume "int (length (Fields T)) < n"
    then show "GetNGrams T n = Inr []" by (simp add: GetNGrams_closed [OF n0])
  next
    assume le: "n \<le> int (length (Fields T))"
    let ?gs = "map (\<lambda>j. Join (take (nat n) (drop j (Fields T))) '' '')
                 [0 ..< Suc (length (Fields T) - nat n)]"
    have "GetNGrams T n = Inr ?gs" using le by (simp add: GetNGrams_closed [OF n0])
    moreover have "int (length ?gs) = int (length (Fields T)) - n + 1"
      using le n0 by simp
    moreover have "\<forall>i < length ?gs. ?gs ! i = Join (take (nat n) (drop i (Fields T))) '' ''"
      by (simp del: upt_Suc)
    ultimately show "\<exists>gs. GetNGrams T n = Inr gs
              \<and> int (length gs) = int (length (Fields T)) - n + 1
              \<and> (\<forall>i < length gs. gs ! i = Join (take (nat n) (drop i (Fields T))) '' '')"
      by blast
  qed
qed

lemma Fields_test_sentence:
  "Fields ''This is a test sentence'' = [''This'', ''is'', ''a'', ''test'', ''sentence'']"
  by (simp add: eval_defs)

lemma first_trigram_test_sentence:
  "Join (take (nat 3) (drop 0 [''This'', ''is'', ''a'', ''test'', ''sentence''])) '' ''
   = ''This is a''"
  by code_simp

theorem GetNGrams_count_and_content_witness:
  "(1 :: int) \<le> 3
   \<and> (\<exists>gs. GetNGrams ''This is a test sentence'' 3 = Inr gs \<and> int (length gs) = 3
        \<and> gs ! 0 = ''This is a'')"
proof -
  let ?T = "''This is a test sentence''"
  have h: "(1 :: int) \<le> 3" by simp
  have len: "int (length (Fields ?T)) = 5" by (simp add: Fields_test_sentence)
  have "3 \<le> int (length (Fields ?T)) \<longrightarrow>
          (\<exists>gs. GetNGrams ?T 3 = Inr gs
             \<and> int (length gs) = int (length (Fields ?T)) - 3 + 1
             \<and> (\<forall>i < length gs. gs ! i = Join (take (nat 3) (drop i (Fields ?T))) '' ''))"
    using GetNGrams_count_and_content [OF h, of ?T] by (rule conjunct2)
  moreover have "3 \<le> int (length (Fields ?T))" using len by linarith
  ultimately obtain gs where gs: "GetNGrams ?T 3 = Inr gs"
      "int (length gs) = int (length (Fields ?T)) - 3 + 1"
      "\<forall>i < length gs. gs ! i = Join (take (nat 3) (drop i (Fields ?T))) '' ''"
    by blast
  from gs(2) len have l3: "int (length gs) = 3" by linarith
  then have "0 < length gs" by linarith
  with gs(3) have "gs ! 0 = Join (take (nat 3) (drop 0 (Fields ?T))) '' ''" by blast
  then have "gs ! 0 = ''This is a''"
    unfolding Fields_test_sentence first_trigram_test_sentence .
  with h gs(1) l3 show ?thesis by blast
qed

section \<open>Properties of the plagiarism checker\<close>

text \<open>
  The Jaccard function in terms of sets: the loops over the two maps compute the sizes
  of the two key sets and of their intersection.
\<close>

lemma map_of_fold_toSet:
  "map_of (fold (\<lambda>(ngram, _) s. AList.update ngram True s) xs acc) k
   = (if k \<in> fst ` set xs then Some True else map_of acc k)"
  by (induction xs arbitrary: acc) (auto simp: update_conv')

lemma distinct_fold_toSet:
  "distinct (map fst acc) \<Longrightarrow>
   distinct (map fst (fold (\<lambda>(ngram, _) s. AList.update ngram (True::bool) s) xs acc))"
  by (induction xs arbitrary: acc) (auto simp: distinct_update)

lemma map_of_toSet: "map_of (toSet xs) k = (if k \<in> fst ` set xs then Some True else None)"
  by (simp add: toSet_def map_of_fold_toSet)

lemma distinct_toSet: "distinct (map fst (toSet xs))"
  by (simp add: toSet_def distinct_fold_toSet)

lemma keys_toSet: "fst ` set (toSet xs) = fst ` set xs"
proof -
  have "fst ` set (toSet xs) = dom (map_of (toSet xs))"
    by (simp add: dom_map_of_conv_image_fst)
  also have "\<dots> = fst ` set xs"
    by (auto simp: map_of_toSet dom_def)
  finally show ?thesis .
qed

lemma length_toSet: "length (toSet xs) = card (fst ` set xs)"
proof -
  have "length (toSet xs) = length (map fst (toSet xs))" by simp
  also have "\<dots> = card (set (map fst (toSet xs)))"
    by (rule distinct_card [symmetric]) (rule distinct_toSet)
  also have "\<dots> = card (fst ` set xs)" by (simp add: keys_toSet)
  finally show ?thesis .
qed

lemma indexBool_toSet: "indexBool (toSet xs) k = (k \<in> fst ` set xs)"
  by (simp add: indexBool_def map_of_toSet)

lemma fold_count:
  "fold (\<lambda>(k, _) i. if P k then i + 1 else i) ys (i0 :: int)
   = i0 + int (length (filter P (map fst ys)))"
  by (induction ys arbitrary: i0) (auto split: prod.splits)

lemma length_filter_distinct:
  "distinct ks \<Longrightarrow> length (filter P ks) = card {k \<in> set ks. P k}"
proof -
  assume d: "distinct ks"
  then have "distinct (filter P ks)" by simp
  then have "card (set (filter P ks)) = length (filter P ks)" by (rule distinct_card)
  then show ?thesis by simp
qed

lemma jaccard_sets:
  "calculateJaccardSimilarity ngrams1 ngrams2 =
     (let A = fst ` set ngrams1; B = fst ` set ngrams2;
          u = int (card A) + int (card B) - int (card (A \<inter> B))
      in if u = 0 then 0 else of_int (int (card (A \<inter> B))) / of_int u)"
proof -
  let ?A = "fst ` set ngrams1" and ?B = "fst ` set ngrams2"
  have "fold (\<lambda>(ngram, _) i. if indexBool (toSet ngrams2) ngram then i + 1 else i)
          (toSet ngrams1) (0 :: int)
        = int (length (filter (\<lambda>k. k \<in> ?B) (map fst (toSet ngrams1))))"
    by (simp add: fold_count indexBool_toSet)
  also have "\<dots> = int (card {k \<in> set (map fst (toSet ngrams1)). k \<in> ?B})"
    by (simp only: length_filter_distinct [OF distinct_toSet])
  also have "{k \<in> set (map fst (toSet ngrams1)). k \<in> ?B} = ?A \<inter> ?B"
    using keys_toSet [of ngrams1] by auto
  finally have inter: "fold (\<lambda>(ngram, _) i. if indexBool (toSet ngrams2) ngram then i + 1 else i)
          (toSet ngrams1) (0 :: int) = int (card (?A \<inter> ?B))" .
  show ?thesis
    unfolding calculateJaccardSimilarity_def Let_def inter length_toSet ..
qed

end
